theory Spec2Isabelle
  imports Main "HOL-Library.AList"
begin

section \<open>The SQLAlchemy model view of flask\_adminex (ext/sqlamodel.py)\<close>

text \<open>
  The adapter reads the metadata of an ORM mapper, derives list columns, sortable
  columns and form fields from it, and forwards persistence to the ORM session.
  The ORM, the form library and the flash messages are collaborators: their
  objects are data here, their operations are parameters.
\<close>

subsection \<open>Python values and exceptions\<close>

datatype pyval = PyNone | PyBool bool | PyInt int | PyStr string | PyList "pyval list"

text \<open>
  \<open>IndexError\<close> is what \<open>xs[0]\<close> raises on an empty list, \<open>TypeError\<close> what a call
  raises that gets a keyword argument twice, \<open>RuntimeError\<close> what \<open>flash\<close> raises
  outside a request, \<open>UnicodeEncodeError\<close> what \<open>str\<close> raises on a unicode message
  that is not ASCII. \<open>Exception msg\<close> is \<open>Exception(msg)\<close> or an instance of any
  subclass of \<open>Exception\<close> whose \<open>str\<close> is \<open>msg\<close>; \<open>StrRaises e\<close> is an instance
  of a subclass of \<open>Exception\<close> whose \<open>str\<close> raises \<open>e\<close>. The last three classes
  derive from \<open>BaseException\<close> and not from \<open>Exception\<close>.
\<close>

datatype py_exception =
    IndexError
  | TypeError
  | RuntimeError
  | UnicodeEncodeError
  | Exception string
  | StrRaises py_exception
  | KeyboardInterrupt
  | SystemExit
  | GeneratorExit

fun isinstance_Exception :: "py_exception \<Rightarrow> bool" where
  "isinstance_Exception IndexError = True"
| "isinstance_Exception TypeError = True"
| "isinstance_Exception RuntimeError = True"
| "isinstance_Exception UnicodeEncodeError = True"
| "isinstance_Exception (Exception msg) = True"
| "isinstance_Exception (StrRaises e) = True"
| "isinstance_Exception KeyboardInterrupt = False"
| "isinstance_Exception SystemExit = False"
| "isinstance_Exception GeneratorExit = False"

text \<open>\<open>str(ex)\<close>: the message, or what \<open>__str__\<close> raised.\<close>

fun py_str :: "py_exception \<Rightarrow> py_exception + string" where
  "py_str IndexError = Inr ''list index out of range''"
| "py_str TypeError = Inr ''got multiple values for keyword argument''"
| "py_str RuntimeError = Inr ''working outside of request context''"
| "py_str UnicodeEncodeError = Inr ''ordinal not in range(128)''"
| "py_str (Exception msg) = Inr msg"
| "py_str (StrRaises e) = Inl e"
| "py_str KeyboardInterrupt = Inr []"
| "py_str SystemExit = Inr []"
| "py_str GeneratorExit = Inr []"

subsection \<open>Mapper metadata\<close>

record column =
  nullable :: bool
  primary_key :: bool
  foreign_keys :: "string list"

datatype direction = MANYTOONE | ONETOMANY | MANYTOMANY

text \<open>
  A mapper property is a relationship (key, direction, local/remote column pairs,
  the class of the remote mapper), a column property (key, columns) or a property of
  another class (a synonym, a composite), of which the adapter reads nothing.
\<close>

datatype mapper_property =
    RelationshipProperty string direction "(column \<times> column) list" string
  | ColumnProperty string "column list"
  | OtherProperty string

fun prop_key :: "mapper_property \<Rightarrow> string" where
  "prop_key (RelationshipProperty k d prs rm) = k"
| "prop_key (ColumnProperty k cs) = k"
| "prop_key (OtherProperty k) = k"

record sa_mapper =
  iterate_properties :: "mapper_property list"

record model_class =
  model_name :: string
  mapper :: sa_mapper

subsection \<open>The view\<close>

datatype sort_field =
    Basestring string
  | InstrumentedAttribute string string
  | OtherObject

text \<open>
  \<open>page_size\<close> and \<open>_sortable_columns\<close> are attributes of the base class
  \<open>BaseModelView\<close>; here they are fields of the view.
\<close>

record view =
  model :: model_class
  hide_backrefs :: bool
  page_size :: int
  sortable_columns :: "string \<rightharpoonup> sort_field"

subsection \<open>Scaffolding\<close>

definition is_pk_or_fk :: "column \<Rightarrow> bool" where
  "is_pk_or_fk c = (foreign_keys c \<noteq> [] \<or> primary_key c)"

fun list_columns_loop :: "mapper_property list \<Rightarrow> string list \<Rightarrow> py_exception + string list" where
  "list_columns_loop [] columns = Inr columns"
| "list_columns_loop (RelationshipProperty k d prs rm # ps) columns =
     (if d = MANYTOONE then list_columns_loop ps (columns @ [k])
      else list_columns_loop ps columns)"
| "list_columns_loop (ColumnProperty k cs # ps) columns =
     (case cs of
        [] \<Rightarrow> Inl IndexError
      | c # _ \<Rightarrow>
          if is_pk_or_fk c then list_columns_loop ps columns
          else list_columns_loop ps (columns @ [k]))"
| "list_columns_loop (OtherProperty k # ps) columns = list_columns_loop ps columns"

definition scaffold_list_columns :: "view \<Rightarrow> py_exception + string list" where
  "scaffold_list_columns v = list_columns_loop (iterate_properties (mapper (model v))) []"

definition multi_column_message :: "string \<Rightarrow> string \<Rightarrow> string" where
  "multi_column_message cls k =
     ''Automatic form scaffolding is not supported'' @
     '' for multi-column properties ('' @ cls @ ''.'' @ k @ '')''"

fun sortable_columns_loop ::
  "string \<Rightarrow> mapper_property list \<Rightarrow> (string \<rightharpoonup> string) \<Rightarrow> py_exception + (string \<rightharpoonup> string)" where
  "sortable_columns_loop cls [] columns = Inr columns"
| "sortable_columns_loop cls (ColumnProperty k cs # ps) columns =
     (if length cs > 1 then Inl (Exception (multi_column_message cls k))
      else (case cs of
              [] \<Rightarrow> Inl IndexError
            | c # _ \<Rightarrow>
                if is_pk_or_fk c then sortable_columns_loop cls ps columns
                else sortable_columns_loop cls ps (columns(k \<mapsto> k))))"
| "sortable_columns_loop cls (RelationshipProperty k d prs rm # ps) columns =
     sortable_columns_loop cls ps columns"
| "sortable_columns_loop cls (OtherProperty k # ps) columns =
     sortable_columns_loop cls ps columns"

definition scaffold_sortable_columns :: "view \<Rightarrow> py_exception + (string \<rightharpoonup> string)" where
  "scaffold_sortable_columns v =
     sortable_columns_loop (model_name (model v)) (iterate_properties (mapper (model v))) Map.empty"

subsection \<open>Converting a property into a form field\<close>

type_synonym kwargs = "(string \<times> pyval) list"

text \<open>\<open>d.update(other)\<close>: every item of \<open>other\<close> is stored in \<open>d\<close>, in order.\<close>

definition dict_update :: "kwargs \<Rightarrow> kwargs \<Rightarrow> kwargs" where
  "dict_update d other = fold (\<lambda>(k, v). AList.update k v) other d"

text \<open>
  A select field keeps the class its query factory queries and its keyword
  arguments; \<open>ConvertedField\<close> is a field made by the converter of the form library.
\<close>

datatype 'f form_field =
    QuerySelectField string kwargs
  | QuerySelectMultipleField string kwargs
  | ConvertedField 'f

text \<open>
  \<open>F(query_factory=query_factory, **kwargs)\<close>: Python refuses the call when
  \<open>kwargs\<close> has the key \<open>query_factory\<close> too.
\<close>

definition call_with_query_factory ::
  "(string \<Rightarrow> kwargs \<Rightarrow> 'f form_field) \<Rightarrow> string \<Rightarrow> kwargs \<Rightarrow> py_exception + 'f form_field option" where
  "call_with_query_factory F remote_model kw =
     (if ''query_factory'' \<in> set (map fst kw) then Inl TypeError
      else Inr (Some (F remote_model kw)))"

definition default_kwargs :: "column \<Rightarrow> kwargs" where
  "default_kwargs local_column =
     [(''validators'', PyList []),
      (''filters'', PyList []),
      (''allow_blank'', PyBool (nullable local_column)),
      (''default'', PyNone)]"

text \<open>
  The keyword arguments of a select field: the defaults, updated with \<open>field_args\<close>
  when that is truthy. \<open>field_args\<close> is \<open>None\<close> or a dictionary.
\<close>

definition relationship_kwargs :: "column \<Rightarrow> kwargs option \<Rightarrow> kwargs" where
  "relationship_kwargs local_column field_args =
     (case field_args of
        None \<Rightarrow> default_kwargs local_column
      | Some fa \<Rightarrow>
          if fa \<noteq> [] then dict_update (default_kwargs local_column) fa
          else default_kwargs local_column)"

text \<open>\<open>super_convert\<close> is \<open>ModelConverter.convert\<close> of the form library.\<close>

definition convert ::
  "(model_class \<Rightarrow> sa_mapper \<Rightarrow> mapper_property \<Rightarrow> kwargs option \<Rightarrow> py_exception + 'f form_field option)
   \<Rightarrow> view \<Rightarrow> model_class \<Rightarrow> sa_mapper \<Rightarrow> mapper_property \<Rightarrow> kwargs option
   \<Rightarrow> py_exception + 'f form_field option" where
  "convert super_convert v cls mp prop field_args =
     (case prop of
        RelationshipProperty k d prs remote_model \<Rightarrow>
          (case prs of
             [] \<Rightarrow> Inl IndexError
           | (local_column, remote_column) # _ \<Rightarrow>
               (let kw = relationship_kwargs local_column field_args
                in if d = MANYTOONE then
                     call_with_query_factory QuerySelectField remote_model kw
                   else if d = ONETOMANY then
                     (if foreign_keys local_column = [] \<and> hide_backrefs v then Inr None
                      else call_with_query_factory QuerySelectMultipleField remote_model kw)
                   else Inr None))
      | ColumnProperty k cs \<Rightarrow>
          (case cs of
             [] \<Rightarrow> Inl IndexError
           | c # _ \<Rightarrow>
               if is_pk_or_fk c then Inr None
               else super_convert cls mp prop field_args)
      | OtherProperty k \<Rightarrow> super_convert cls mp prop field_args)"

text \<open>The items of \<open>field_args\<close>: none when it is \<open>None\<close>.\<close>

definition field_args_items :: "kwargs option \<Rightarrow> kwargs" where
  "field_args_items field_args = (case field_args of None \<Rightarrow> [] | Some fa \<Rightarrow> fa)"

subsection \<open>Running against the session\<close>

text \<open>
  The world is the state behind the ORM session together with the messages flashed
  so far, each a pair of category and message, and whether a request context with a
  usable session cookie is active. A statement takes a world and gives what it
  raised (\<open>Inl\<close>) or returned (\<open>Inr\<close>) and the world it left.
\<close>

record 'db world =
  session :: 'db
  flashes :: "(string \<times> string) list"
  request_context :: bool

type_synonym ('db, 'a) stmt = "'db world \<Rightarrow> (py_exception + 'a) \<times> 'db world"

definition return :: "'a \<Rightarrow> ('db, 'a) stmt" where
  "return x w = (Inr x, w)"

definition bind :: "('db, 'a) stmt \<Rightarrow> ('a \<Rightarrow> ('db, 'b) stmt) \<Rightarrow> ('db, 'b) stmt" where
  "bind f g w = (case f w of (Inl ex, w') \<Rightarrow> (Inl ex, w') | (Inr x, w') \<Rightarrow> g x w')"

text \<open>\<open>try: body except Exception, ex: handler\<close>\<close>

definition try_except_Exception ::
  "('db, 'a) stmt \<Rightarrow> (py_exception \<Rightarrow> ('db, 'a) stmt) \<Rightarrow> ('db, 'a) stmt" where
  "try_except_Exception body handler w =
     (case body w of
        (Inl ex, w') \<Rightarrow> if isinstance_Exception ex then handler ex w' else (Inl ex, w')
      | (Inr x, w') \<Rightarrow> (Inr x, w'))"

text \<open>A call into the ORM or the form library works on the session state only.\<close>

definition call :: "('db \<Rightarrow> (py_exception + 'a) \<times> 'db) \<Rightarrow> ('db, 'a) stmt" where
  "call f w = (case f (session w) of (r, s') \<Rightarrow> (r, w\<lparr>session := s'\<rparr>))"

text \<open>
  \<open>flash(message, category)\<close> stores the message in the request's session; outside
  a request it raises.
\<close>

definition flash :: "string \<Rightarrow> string \<Rightarrow> ('db, unit) stmt" where
  "flash message category w =
     (if request_context w
      then (Inr (), w\<lparr>flashes := flashes w @ [(category, message)]\<rparr>)
      else (Inl RuntimeError, w))"

text \<open>An expression that raises or gives a value and leaves the world as it is.\<close>

definition evaluate :: "py_exception + 'a \<Rightarrow> ('db, 'a) stmt" where
  "evaluate r w = (r, w)"

text \<open>
  A query is the chain of calls that built it: \<open>session.query(model)\<close>, then
  \<open>join\<close>, \<open>order_by\<close>, \<open>offset\<close> and \<open>limit\<close>.
\<close>

datatype join_target = JoinName string | JoinEntity string

datatype order_clause = Asc sort_field | Desc sort_field

datatype query =
    SessionQuery model_class
  | Join query join_target
  | OrderBy query order_clause
  | Offset query int
  | Limit query int

text \<open>
  The operations of the collaborators: the constructor of the model class,
  \<open>form.populate_obj\<close>, and the session's and the query's methods that reach the
  database. Each may raise.
\<close>

record ('db, 'obj, 'form, 'id) orm =
  model_new :: "model_class \<Rightarrow> 'db \<Rightarrow> (py_exception + 'obj) \<times> 'db"
  populate_obj :: "'form \<Rightarrow> 'obj \<Rightarrow> 'db \<Rightarrow> (py_exception + unit) \<times> 'db"
  session_add :: "'obj \<Rightarrow> 'db \<Rightarrow> (py_exception + unit) \<times> 'db"
  session_commit :: "'db \<Rightarrow> (py_exception + unit) \<times> 'db"
  session_delete :: "'obj \<Rightarrow> 'db \<Rightarrow> (py_exception + unit) \<times> 'db"
  query_count :: "query \<Rightarrow> 'db \<Rightarrow> (py_exception + nat) \<times> 'db"
  query_all :: "query \<Rightarrow> 'db \<Rightarrow> (py_exception + 'obj list) \<times> 'db"
  query_get :: "query \<Rightarrow> 'id \<Rightarrow> 'db \<Rightarrow> (py_exception + 'obj option) \<times> 'db"

subsection \<open>Database-related API\<close>

datatype 'obj list_result = QueryObject query | ModelList "'obj list"

definition order_query :: "query \<Rightarrow> bool \<Rightarrow> sort_field \<Rightarrow> query" where
  "order_query q sort_desc sort_field =
     (if sort_desc then OrderBy q (Desc sort_field) else OrderBy q (Asc sort_field))"

definition sort_query :: "view \<Rightarrow> query \<Rightarrow> string option \<Rightarrow> bool \<Rightarrow> query" where
  "sort_query v q sort_column sort_desc =
     (case sort_column of
        None \<Rightarrow> q
      | Some sc \<Rightarrow>
          (case sortable_columns v sc of
             None \<Rightarrow> q
           | Some (Basestring s) \<Rightarrow>
               order_query
                 (if CHR ''.'' \<in> set s
                  then Join q (JoinName (takeWhile (\<lambda>c. c \<noteq> CHR ''.'') s))
                  else q)
                 sort_desc (Basestring s)
           | Some (InstrumentedAttribute parententity k) \<Rightarrow>
               order_query (Join q (JoinEntity parententity)) sort_desc
                 (InstrumentedAttribute parententity k)
           | Some OtherObject \<Rightarrow> q))"

definition paginate :: "view \<Rightarrow> query \<Rightarrow> int option \<Rightarrow> query" where
  "paginate v q page =
     Limit (case page of None \<Rightarrow> q | Some p \<Rightarrow> Offset q (p * page_size v)) (page_size v)"

definition get_list ::
  "('db, 'obj, 'form, 'id) orm \<Rightarrow> view \<Rightarrow> int option \<Rightarrow> string option \<Rightarrow> bool \<Rightarrow> bool
   \<Rightarrow> ('db, nat \<times> 'obj list_result) stmt" where
  "get_list orm v page sort_column sort_desc execute =
     bind (call (query_count orm (SessionQuery (model v)))) (\<lambda>count.
       let q = paginate v (sort_query v (SessionQuery (model v)) sort_column sort_desc) page
       in if execute
          then bind (call (query_all orm q)) (\<lambda>rows. return (count, ModelList rows))
          else return (count, QueryObject q))"

definition get_one :: "('db, 'obj, 'form, 'id) orm \<Rightarrow> view \<Rightarrow> 'id \<Rightarrow> ('db, 'obj option) stmt" where
  "get_one orm v ident = call (query_get orm (SessionQuery (model v)) ident)"

subsection \<open>Model handlers\<close>

text \<open>
  The \<open>try\<close> block of \<open>create_model\<close>, and the method. The handler evaluates
  \<open>str(ex)\<close>, then calls \<open>flash\<close>; what either raises leaves the method.
\<close>

definition create_model_try :: "('db, 'obj, 'form, 'id) orm \<Rightarrow> view \<Rightarrow> 'form \<Rightarrow> ('db, pyval) stmt" where
  "create_model_try orm v form =
     bind (call (model_new orm (model v))) (\<lambda>m.
     bind (call (populate_obj orm form m)) (\<lambda>_.
     bind (call (session_add orm m)) (\<lambda>_.
     bind (call (session_commit orm)) (\<lambda>_.
     return (PyBool True)))))"

definition create_model :: "('db, 'obj, 'form, 'id) orm \<Rightarrow> view \<Rightarrow> 'form \<Rightarrow> ('db, pyval) stmt" where
  "create_model orm v form =
     try_except_Exception
       (create_model_try orm v form)
       (\<lambda>ex. bind (evaluate (py_str ex)) (\<lambda>s.
              bind (flash (''Failed to create model. '' @ s) ''error'') (\<lambda>_.
              return (PyBool False))))"

text \<open>The \<open>try\<close> block of \<open>update_model\<close>, and the method.\<close>

definition update_model_try ::
  "('db, 'obj, 'form, 'id) orm \<Rightarrow> view \<Rightarrow> 'form \<Rightarrow> 'obj \<Rightarrow> ('db, pyval) stmt" where
  "update_model_try orm v form m =
     bind (call (populate_obj orm form m)) (\<lambda>_.
     bind (call (session_commit orm)) (\<lambda>_.
     return (PyBool True)))"

definition update_model ::
  "('db, 'obj, 'form, 'id) orm \<Rightarrow> view \<Rightarrow> 'form \<Rightarrow> 'obj \<Rightarrow> ('db, pyval) stmt" where
  "update_model orm v form m =
     try_except_Exception
       (update_model_try orm v form m)
       (\<lambda>ex. bind (evaluate (py_str ex)) (\<lambda>s.
              bind (flash (''Failed to update model. '' @ s) ''error'') (\<lambda>_.
              return (PyBool False))))"

definition delete_model :: "('db, 'obj, 'form, 'id) orm \<Rightarrow> view \<Rightarrow> 'obj \<Rightarrow> ('db, pyval) stmt" where
  "delete_model orm v m =
     bind (call (session_delete orm m)) (\<lambda>_.
     bind (call (session_commit orm)) (\<lambda>_.
     return PyNone))"

subsection \<open>Sample models and sessions\<close>

definition plain_column :: column where
  "plain_column = \<lparr>nullable = True, primary_key = False, foreign_keys = []\<rparr>"

definition pk_column :: column where
  "pk_column = \<lparr>nullable = False, primary_key = True, foreign_keys = []\<rparr>"

definition fk_column :: column where
  "fk_column = \<lparr>nullable = False, primary_key = False, foreign_keys = [''user.id'']\<rparr>"

text \<open>A post with a title, an author (many-to-one) and comments (a backref).\<close>

definition post_properties :: "mapper_property list" where
  "post_properties =
     [ColumnProperty ''id'' [pk_column],
      ColumnProperty ''title'' [plain_column],
      ColumnProperty ''user_id'' [fk_column],
      RelationshipProperty ''user'' MANYTOONE [(fk_column, pk_column)] ''User'',
      RelationshipProperty ''comments'' ONETOMANY [(pk_column, fk_column)] ''Comment'']"

definition post_model :: model_class where
  "post_model = \<lparr>model_name = ''Post'', mapper = \<lparr>iterate_properties = post_properties\<rparr>\<rparr>"

definition post_view :: view where
  "post_view =
     \<lparr>model = post_model, hide_backrefs = True, page_size = 20,
      sortable_columns = [''title'' \<mapsto> Basestring ''title'', ''user'' \<mapsto> Basestring ''user.name'']\<rparr>"

text \<open>
  A class mapped against a join: the property \<open>ref\<close> maps a plain column of one
  table and the primary key of the other.
\<close>

definition joined_model :: model_class where
  "joined_model =
     \<lparr>model_name = ''Joined'',
      mapper = \<lparr>iterate_properties = [ColumnProperty ''ref'' [plain_column, pk_column]]\<rparr>\<rparr>"

definition joined_view :: view where
  "joined_view =
     \<lparr>model = joined_model, hide_backrefs = True, page_size = 20, sortable_columns = Map.empty\<rparr>"

text \<open>
  A session that counts the objects it holds. Its \<open>commit\<close> raises the given
  exception, or succeeds when there is none.
\<close>

definition counting_orm :: "py_exception option \<Rightarrow> (nat, unit, unit, unit) orm" where
  "counting_orm failure =
     \<lparr>model_new = (\<lambda>cls s. (Inr (), s)),
      populate_obj = (\<lambda>form m s. (Inr (), s)),
      session_add = (\<lambda>m s. (Inr (), Suc s)),
      session_commit = (\<lambda>s. case failure of None \<Rightarrow> (Inr (), s) | Some ex \<Rightarrow> (Inl ex, s)),
      session_delete = (\<lambda>m s. (Inr (), s - 1)),
      query_count = (\<lambda>q s. (Inr s, s)),
      query_all = (\<lambda>q s. (Inr (replicate s ()), s)),
      query_get = (\<lambda>q ident s. (Inr None, s))\<rparr>"

definition empty_world :: "nat world" where
  "empty_world = \<lparr>session = 0, flashes = [], request_context = True\<rparr>"

section \<open>Properties of the scaffolding\<close>

subsection \<open>The two loops\<close>

lemma sortable_loop_single:
  "sortable_columns_loop cls ps acc = Inr d \<Longrightarrow> ColumnProperty k cs \<in> set ps \<Longrightarrow> length cs = 1"
proof (induction ps arbitrary: acc)
  case Nil
  then show ?case by simp
next
  case (Cons p ps)
  then show ?case
    by (cases p) (auto split: if_splits list.splits)
qed

lemma sortable_loop_raises_iff:
  "(\<exists>e. sortable_columns_loop cls ps acc = Inl e) \<longleftrightarrow>
   (\<exists>k cs. ColumnProperty k cs \<in> set ps \<and> length cs \<noteq> 1)"
proof (induction ps arbitrary: acc)
  case Nil
  then show ?case by simp
next
  case (Cons p ps)
  show ?case
  proof (cases p)
    case (ColumnProperty k cs)
    have "length cs \<noteq> 1 \<Longrightarrow> \<exists>k' cs'. ColumnProperty k' cs' \<in> set (p # ps) \<and> length cs' \<noteq> 1"
      using ColumnProperty by (intro exI[of _ k] exI[of _ cs]) simp
    then show ?thesis using ColumnProperty Cons.IH
      by (cases cs) (auto split: if_splits)
  qed (use Cons.IH in auto)
qed

lemma sortable_loop_lookup:
  "sortable_columns_loop cls ps acc = Inr d \<Longrightarrow>
   d k = (if \<exists>c. ColumnProperty k [c] \<in> set ps \<and> \<not> is_pk_or_fk c then Some k else acc k)"
proof (induction ps arbitrary: acc)
  case Nil
  then show ?case by simp
next
  case (Cons p ps)
  then show ?case
    by (cases p) (auto split: if_splits list.splits)
qed

lemma list_loop_set:
  "list_columns_loop ps acc = Inr cols \<Longrightarrow>
   set cols = set acc \<union>
     {k. (\<exists>prs rm. RelationshipProperty k MANYTOONE prs rm \<in> set ps) \<or>
         (\<exists>c cs. ColumnProperty k (c # cs) \<in> set ps \<and> \<not> is_pk_or_fk c)}"
proof (induction ps arbitrary: acc)
  case Nil
  then show ?case by simp
next
  case (Cons p ps)
  then show ?case
    by (cases p) (auto split: if_splits list.splits)
qed

lemma list_loop_returns_iff:
  "(\<exists>cols. list_columns_loop ps acc = Inr cols) \<longleftrightarrow>
   (\<forall>k. ColumnProperty k [] \<notin> set ps)"
proof (induction ps arbitrary: acc)
  case Nil
  then show ?case by simp
next
  case (Cons p ps)
  then show ?case
    by (cases p) (auto split: if_splits list.splits)
qed


subsection \<open>Primary and foreign keys in the scaffolded columns\<close>

lemmas sample_defs = post_view_def post_model_def post_properties_def joined_view_def joined_model_def
  plain_column_def pk_column_def fk_column_def is_pk_or_fk_def

text \<open>
  C1. No column that is a primary key or has foreign keys is to appear among the list
  columns or the sortable columns. \<open>scaffold_list_columns\<close> looks at the first column
  of a column property only (the source marks it: TODO, check for multiple columns):
  for the property \<open>ref\<close> of the joined model, whose second column is a primary key,
  it lists \<open>ref\<close>, where \<open>scaffold_sortable_columns\<close> refuses the same property.
\<close>

theorem list_columns_multi_column_primary_key:
  "scaffold_list_columns joined_view = Inr [''ref''] \<and>
   iterate_properties (mapper (model joined_view)) = [ColumnProperty ''ref'' [plain_column, pk_column]] \<and>
   primary_key pk_column \<and>
   scaffold_sortable_columns joined_view =
     Inl (Exception ''Automatic form scaffolding is not supported for multi-column properties (Joined.ref)'')"
  by (simp add: scaffold_list_columns_def scaffold_sortable_columns_def multi_column_message_def sample_defs)

text \<open>
  What does hold: the sortable columns have no key of a property with a primary or
  foreign key column, and the list columns none of a property whose first column is
  one.
\<close>

lemma same_key_same_property:
  assumes "distinct (map prop_key ps)" and "p \<in> set ps" and "q \<in> set ps"
    and "prop_key p = prop_key q"
  shows "p = q"
proof -
  from assms(1) have "inj_on prop_key (set ps)" by (simp add: distinct_map)
  with assms(2-4) show ?thesis by (simp add: inj_on_def)
qed

lemma sortable_columns_exclude_pk_fk:
  assumes "distinct (map prop_key (iterate_properties (mapper (model v))))"
    and "scaffold_sortable_columns v = Inr d"
    and "ColumnProperty k cs \<in> set (iterate_properties (mapper (model v)))"
    and "c \<in> set cs" and "is_pk_or_fk c"
  shows "k \<notin> dom d"
proof
  let ?ps = "iterate_properties (mapper (model v))"
  assume "k \<in> dom d"
  have loop: "sortable_columns_loop (model_name (model v)) ?ps Map.empty = Inr d"
    using assms(2) by (simp add: scaffold_sortable_columns_def)
  from sortable_loop_single[OF loop assms(3)] assms(4) have cs: "cs = [c]"
    by (cases cs) auto
  from sortable_loop_lookup[OF loop, of k] \<open>k \<in> dom d\<close>
  obtain c' where c': "ColumnProperty k [c'] \<in> set ?ps" "\<not> is_pk_or_fk c'"
    by (auto split: if_splits)
  have "ColumnProperty k [c'] = ColumnProperty k cs"
    using same_key_same_property[OF assms(1) c'(1) assms(3)] by simp
  with cs assms(5) c'(2) show False by simp
qed

lemma list_columns_exclude_first_pk_fk:
  assumes "distinct (map prop_key (iterate_properties (mapper (model v))))"
    and "scaffold_list_columns v = Inr cols"
    and "ColumnProperty k (c # cs) \<in> set (iterate_properties (mapper (model v)))"
    and "is_pk_or_fk c"
  shows "k \<notin> set cols"
proof
  let ?ps = "iterate_properties (mapper (model v))"
  assume "k \<in> set cols"
  have loop: "list_columns_loop ?ps [] = Inr cols"
    using assms(2) by (simp add: scaffold_list_columns_def)
  from list_loop_set[OF loop] \<open>k \<in> set cols\<close>
  consider prs rm where "RelationshipProperty k MANYTOONE prs rm \<in> set ?ps"
    | c' cs' where "ColumnProperty k (c' # cs') \<in> set ?ps" "\<not> is_pk_or_fk c'"
    by auto
  then show False
  proof cases
    case 1
    then have "RelationshipProperty k MANYTOONE prs rm = ColumnProperty k (c # cs)"
      using same_key_same_property[OF assms(1) _ assms(3), of "RelationshipProperty k MANYTOONE prs rm"]
      by simp
    then show False by simp
  next
    case 2
    then have "ColumnProperty k (c' # cs') = ColumnProperty k (c # cs)"
      using same_key_same_property[OF assms(1) _ assms(3), of "ColumnProperty k (c' # cs')"]
      by simp
    with 2 assms(4) show False by simp
  qed
qed

subsection \<open>When the sortable columns are refused\<close>

text \<open>
  C8. A column property of a mapper has at least one column. On such a model
  \<open>scaffold_sortable_columns\<close> raises if and only if some column property has more
  than one column, and then it returns no dictionary.
\<close>

theorem sortable_columns_raises_iff_multi_column:
  assumes "\<And>k. ColumnProperty k [] \<notin> set (iterate_properties (mapper (model v)))"
  shows "((\<exists>ex. scaffold_sortable_columns v = Inl ex) \<longleftrightarrow>
          (\<exists>k cs. ColumnProperty k cs \<in> set (iterate_properties (mapper (model v))) \<and> 1 < length cs)) \<and>
         ((\<exists>k cs. ColumnProperty k cs \<in> set (iterate_properties (mapper (model v))) \<and> 1 < length cs) \<longrightarrow>
          (\<forall>d. scaffold_sortable_columns v \<noteq> Inr d))"
proof -
  let ?ps = "iterate_properties (mapper (model v))"
  have nonempty: "cs \<noteq> []" if "ColumnProperty k cs \<in> set ?ps" for k cs
    using assms[of k] that by auto
  have "(\<exists>k cs. ColumnProperty k cs \<in> set ?ps \<and> length cs \<noteq> 1) \<longleftrightarrow>
        (\<exists>k cs. ColumnProperty k cs \<in> set ?ps \<and> 1 < length cs)"
  proof
    assume "\<exists>k cs. ColumnProperty k cs \<in> set ?ps \<and> length cs \<noteq> 1"
    then obtain k cs where kc: "ColumnProperty k cs \<in> set ?ps" "length cs \<noteq> 1" by blast
    with nonempty[OF kc(1)] have "1 < length cs" by (cases cs) auto
    with kc(1) show "\<exists>k cs. ColumnProperty k cs \<in> set ?ps \<and> 1 < length cs" by blast
  next
    assume "\<exists>k cs. ColumnProperty k cs \<in> set ?ps \<and> 1 < length cs"
    then obtain k cs where "ColumnProperty k cs \<in> set ?ps" "1 < length cs" by blast
    then have "ColumnProperty k cs \<in> set ?ps \<and> length cs \<noteq> 1" by simp
    then show "\<exists>k cs. ColumnProperty k cs \<in> set ?ps \<and> length cs \<noteq> 1" by blast
  qed
  with sortable_loop_raises_iff[of "model_name (model v)" ?ps Map.empty]
  have iff: "(\<exists>ex. scaffold_sortable_columns v = Inl ex) \<longleftrightarrow>
             (\<exists>k cs. ColumnProperty k cs \<in> set ?ps \<and> 1 < length cs)"
    by (simp add: scaffold_sortable_columns_def)
  then show ?thesis by auto
qed

theorem sortable_columns_raises_iff_multi_column_witness:
  "(\<forall>k. ColumnProperty k [] \<notin> set (iterate_properties (mapper (model joined_view)))) \<and>
   (\<exists>ex. scaffold_sortable_columns joined_view = Inl ex) \<and>
   (\<forall>d. scaffold_sortable_columns joined_view \<noteq> Inr d) \<and>
   (\<forall>k. ColumnProperty k [] \<notin> set (iterate_properties (mapper (model post_view)))) \<and>
   (\<nexists>ex. scaffold_sortable_columns post_view = Inl ex)"
proof -
  have c1: "ColumnProperty k [] \<notin> set (iterate_properties (mapper (model joined_view)))" for k
    by (simp add: sample_defs)
  have c2: "ColumnProperty k [] \<notin> set (iterate_properties (mapper (model post_view)))" for k
    by (simp add: sample_defs)
  have m: "ColumnProperty ''ref'' [plain_column, pk_column] \<in> set (iterate_properties (mapper (model joined_view)))
           \<and> 1 < length [plain_column, pk_column]"
    by (simp add: joined_view_def joined_model_def)
  have s: "\<nexists>k cs. ColumnProperty k cs \<in> set (iterate_properties (mapper (model post_view))) \<and> 1 < length cs"
    by (auto simp: sample_defs)
  from sortable_columns_raises_iff_multi_column[of joined_view, OF c1] m
  have r1: "(\<exists>ex. scaffold_sortable_columns joined_view = Inl ex) \<and>
        (\<forall>d. scaffold_sortable_columns joined_view \<noteq> Inr d)"
    by blast
  from sortable_columns_raises_iff_multi_column[of post_view, OF c2] s
  have r2: "\<nexists>ex. scaffold_sortable_columns post_view = Inl ex"
    by blast
  from c1 c2 r1 r2 show ?thesis by blast
qed

subsection \<open>Sortable columns are list columns\<close>

text \<open>
  C9. When \<open>scaffold_sortable_columns\<close> returns a dictionary, \<open>scaffold_list_columns\<close>
  returns a list, every key of the dictionary is in that list, and every key is
  mapped to itself.
\<close>

theorem sortable_keys_are_list_columns:
  assumes "scaffold_sortable_columns v = Inr d"
  shows "\<exists>cols. scaffold_list_columns v = Inr cols \<and> dom d \<subseteq> set cols \<and> (\<forall>k \<in> dom d. d k = Some k)"
proof -
  let ?ps = "iterate_properties (mapper (model v))"
  have loop: "sortable_columns_loop (model_name (model v)) ?ps Map.empty = Inr d"
    using assms by (simp add: scaffold_sortable_columns_def)
  have "\<forall>k. ColumnProperty k [] \<notin> set ?ps"
    using sortable_loop_single[OF loop] by fastforce
  then obtain cols where cols: "list_columns_loop ?ps [] = Inr cols"
    using list_loop_returns_iff[of ?ps "[]"] by blast
  have look: "d k = (if \<exists>c. ColumnProperty k [c] \<in> set ?ps \<and> \<not> is_pk_or_fk c then Some k else None)" for k
    using sortable_loop_lookup[OF loop, of k] by simp
  have "dom d \<subseteq> set cols"
  proof
    fix k assume "k \<in> dom d"
    with look[of k] obtain c where "ColumnProperty k [c] \<in> set ?ps" "\<not> is_pk_or_fk c"
      by (auto split: if_splits)
    then show "k \<in> set cols" using list_loop_set[OF cols] by auto
  qed
  moreover have "\<forall>k \<in> dom d. d k = Some k"
    using look by (auto split: if_splits)
  ultimately show ?thesis using cols by (simp add: scaffold_list_columns_def)
qed

theorem sortable_keys_are_list_columns_witness:
  "scaffold_sortable_columns post_view = Inr [''title'' \<mapsto> ''title''] \<and>
   scaffold_list_columns post_view = Inr [''title'', ''user''] \<and>
   (\<exists>cols. scaffold_list_columns post_view = Inr cols \<and>
      dom [''title'' \<mapsto> ''title''] \<subseteq> set cols \<and>
      (\<forall>k \<in> dom [''title'' \<mapsto> ''title'']. [''title'' \<mapsto> ''title''] k = Some k))"
proof -
  have r: "scaffold_sortable_columns post_view = Inr [''title'' \<mapsto> ''title'']"
    by (simp add: scaffold_sortable_columns_def sample_defs)
  have l: "scaffold_list_columns post_view = Inr [''title'', ''user'']"
    by (simp add: scaffold_list_columns_def sample_defs)
  from sortable_keys_are_list_columns[OF r] r l show ?thesis by blast
qed


section \<open>Properties of the converter\<close>

subsection \<open>The keyword arguments\<close>

lemma map_of_dict_update:
  "map_of (dict_update d other) = map_of d ++ map_of (rev other)"
  unfolding dict_update_def
proof (induction other arbitrary: d)
  case Nil
  then show ?case by simp
next
  case (Cons kv other)
  obtain k v where kv: "kv = (k, v)" by (cases kv)
  have "map_of (fold (\<lambda>(k, v). AList.update k v) (kv # other) d) =
        map_of (AList.update k v d) ++ map_of (rev other)"
    using Cons.IH[of "AList.update k v d"] kv by simp
  also have "\<dots> = map_of d ++ map_of (rev (kv # other))"
    by (simp add: kv update_conv' map_add_upd_left fun_eq_iff map_add_def split: option.splits)
  finally show ?case .
qed

lemma keys_dict_update:
  "fst ` set (dict_update d other) = fst ` set d \<union> fst ` set other"
  unfolding dict_update_def
proof (induction other arbitrary: d)
  case Nil
  then show ?case by simp
next
  case (Cons kv other)
  obtain k v where kv: "kv = (k, v)" by (cases kv)
  have "fst ` set (AList.update k v d) = {k} \<union> fst ` set d"
    by (rule dom_update)
  then show ?case using Cons.IH[of "AList.update k v d"] kv by auto
qed

lemma relationship_kwargs_map:
  "map_of (relationship_kwargs lc field_args) = map_of (default_kwargs lc) ++ map_of (rev (field_args_items field_args))"
  by (auto simp: relationship_kwargs_def field_args_items_def map_of_dict_update split: option.splits)

lemma relationship_kwargs_keys:
  "fst ` set (relationship_kwargs lc field_args) =
   {''validators'', ''filters'', ''allow_blank'', ''default''} \<union> fst ` set (field_args_items field_args)"
  by (auto simp: relationship_kwargs_def field_args_items_def keys_dict_update default_kwargs_def split: option.splits)

lemma relationship_kwargs_allow_blank:
  "map_of (relationship_kwargs lc field_args) ''allow_blank'' =
   Some (case map_of (rev (field_args_items field_args)) ''allow_blank'' of
           Some b \<Rightarrow> b | None \<Rightarrow> PyBool (nullable lc))"
  by (simp add: relationship_kwargs_map map_add_def default_kwargs_def split: option.splits)

subsection \<open>Backrefs\<close>

text \<open>
  C2. A one-to-many relationship whose first local column has no foreign keys gives
  no form field when the view hides backrefs: \<open>convert\<close> returns \<open>None\<close>.
\<close>

theorem convert_skips_backref:
  assumes "hide_backrefs v" and "foreign_keys local_column = []"
  shows "convert super_convert v cls mp
           (RelationshipProperty k ONETOMANY ((local_column, remote_column) # prs) remote_model)
           field_args = Inr None"
  using assms by (simp add: convert_def Let_def)

theorem convert_skips_backref_witness:
  "hide_backrefs post_view \<and> foreign_keys pk_column = [] \<and>
   convert (\<lambda>cls mp p fa. Inr (Some (ConvertedField ()))) post_view post_model (mapper post_model)
     (RelationshipProperty ''comments'' ONETOMANY [(pk_column, fk_column)] ''Comment'') None = Inr None"
proof -
  have h: "hide_backrefs post_view" by (simp add: post_view_def)
  have f: "foreign_keys pk_column = []" by (simp add: pk_column_def)
  from convert_skips_backref[OF h f] h f show ?thesis by blast
qed

subsection \<open>Select fields\<close>

text \<open>
  C3, as stated, has \<open>allow_blank\<close> set from the nullability of the first local
  column. The keyword arguments are updated with \<open>field_args\<close>: here the column is
  not nullable and the field is built with \<open>allow_blank\<close> true.
\<close>

theorem convert_allow_blank_from_field_args:
  "convert (\<lambda>cls mp p fa. Inr (Some (ConvertedField ()))) post_view post_model (mapper post_model)
     (RelationshipProperty ''user'' MANYTOONE [(fk_column, pk_column)] ''User'')
     (Some [(''allow_blank'', PyBool True)]) =
   Inr (Some (QuerySelectField ''User''
     [(''validators'', PyList []), (''filters'', PyList []),
      (''allow_blank'', PyBool True), (''default'', PyNone)])) \<and>
   \<not> nullable fk_column"
  by (simp add: convert_def Let_def relationship_kwargs_def default_kwargs_def dict_update_def call_with_query_factory_def
      fk_column_def)

text \<open>A \<open>field_args\<close> with the key \<open>query_factory\<close> makes the call of the field raise.\<close>

lemma convert_query_factory_twice:
  "convert (\<lambda>cls mp p fa. Inr (Some (ConvertedField ()))) post_view post_model (mapper post_model)
     (RelationshipProperty ''user'' MANYTOONE [(fk_column, pk_column)] ''User'')
     (Some [(''query_factory'', PyNone)]) = Inl TypeError"
  by (simp add: convert_def Let_def relationship_kwargs_def default_kwargs_def dict_update_def call_with_query_factory_def)

text \<open>
  C3, amended. When \<open>field_args\<close> has no key \<open>query_factory\<close>, a many-to-one
  relationship becomes a \<open>QuerySelectField\<close> and a one-to-many relationship that is
  not skipped a \<open>QuerySelectMultipleField\<close>, on the class of the remote mapper;
  \<open>allow_blank\<close> is what \<open>field_args\<close> gives for it and, when it gives nothing, the
  nullability of the first local column.
\<close>

theorem convert_relationship_select_fields:
  assumes "''query_factory'' \<notin> set (map fst (field_args_items field_args))"
  shows "(d = MANYTOONE \<longrightarrow>
           (\<exists>kw. convert super_convert v cls mp
                    (RelationshipProperty k d ((local_column, remote_column) # prs) remote_model)
                    field_args = Inr (Some (QuerySelectField remote_model kw)) \<and>
                 map_of kw ''allow_blank'' =
                   Some (case map_of (rev (field_args_items field_args)) ''allow_blank'' of
                           Some b \<Rightarrow> b | None \<Rightarrow> PyBool (nullable local_column)))) \<and>
         (d = ONETOMANY \<and> \<not> (foreign_keys local_column = [] \<and> hide_backrefs v) \<longrightarrow>
           (\<exists>kw. convert super_convert v cls mp
                    (RelationshipProperty k d ((local_column, remote_column) # prs) remote_model)
                    field_args = Inr (Some (QuerySelectMultipleField remote_model kw)) \<and>
                 map_of kw ''allow_blank'' =
                   Some (case map_of (rev (field_args_items field_args)) ''allow_blank'' of
                           Some b \<Rightarrow> b | None \<Rightarrow> PyBool (nullable local_column))))"
proof -
  let ?kw = "relationship_kwargs local_column field_args"
  have nokey: "''query_factory'' \<notin> fst ` set ?kw"
    using assms unfolding relationship_kwargs_keys by simp
  have ab: "map_of ?kw ''allow_blank'' =
            Some (case map_of (rev (field_args_items field_args)) ''allow_blank'' of
                    Some b \<Rightarrow> b | None \<Rightarrow> PyBool (nullable local_column))"
    by (rule relationship_kwargs_allow_blank)
  have one: "convert super_convert v cls mp
               (RelationshipProperty k MANYTOONE ((local_column, remote_column) # prs) remote_model)
               field_args = Inr (Some (QuerySelectField remote_model ?kw))"
    using nokey
    by (simp add: convert_def Let_def call_with_query_factory_def)
  have many: "convert super_convert v cls mp
               (RelationshipProperty k ONETOMANY ((local_column, remote_column) # prs) remote_model)
               field_args = Inr (Some (QuerySelectMultipleField remote_model ?kw))"
    if "\<not> (foreign_keys local_column = [] \<and> hide_backrefs v)"
    using nokey that
    by (simp add: convert_def Let_def call_with_query_factory_def)
  show ?thesis using one many ab by blast
qed


theorem convert_relationship_select_fields_witness:
  "''query_factory'' \<notin> set (map fst (field_args_items (Some [(''allow_blank'', PyBool True)]))) \<and>
   (\<exists>kw. convert (\<lambda>cls mp p fa. Inr (Some (ConvertedField ()))) post_view post_model (mapper post_model)
            (RelationshipProperty ''user'' MANYTOONE [(fk_column, pk_column)] ''User'')
            (Some [(''allow_blank'', PyBool True)]) = Inr (Some (QuerySelectField ''User'' kw)) \<and>
          map_of kw ''allow_blank'' = Some (PyBool True)) \<and>
   (\<exists>kw. convert (\<lambda>cls mp p fa. Inr (Some (ConvertedField ()))) post_view post_model (mapper post_model)
            (RelationshipProperty ''author'' ONETOMANY [(fk_column, pk_column)] ''User'')
            (Some [(''allow_blank'', PyBool True)]) = Inr (Some (QuerySelectMultipleField ''User'' kw)) \<and>
          map_of kw ''allow_blank'' = Some (PyBool True))"
proof -
  let ?fa = "Some [(''allow_blank'', PyBool True)]"
  have h: "''query_factory'' \<notin> set (map fst (field_args_items ?fa))"
    by (simp add: field_args_items_def)
  have n: "\<not> (foreign_keys fk_column = [] \<and> hide_backrefs post_view)"
    by (simp add: fk_column_def)
  have v: "(case map_of (rev (field_args_items ?fa)) ''allow_blank'' of
              Some b \<Rightarrow> b | None \<Rightarrow> PyBool (nullable fk_column)) = PyBool True"
    by (simp add: field_args_items_def)
  from convert_relationship_select_fields[OF h, of MANYTOONE "\<lambda>cls mp p fa. Inr (Some (ConvertedField ()))"
      post_view post_model "mapper post_model" "''user''" fk_column pk_column "[]" "''User''"]
  have one: "\<exists>kw. convert (\<lambda>cls mp p fa. Inr (Some (ConvertedField ()))) post_view post_model (mapper post_model)
            (RelationshipProperty ''user'' MANYTOONE [(fk_column, pk_column)] ''User'')
            ?fa = Inr (Some (QuerySelectField ''User'' kw)) \<and>
          map_of kw ''allow_blank'' = Some (PyBool True)"
    unfolding v by simp
  from convert_relationship_select_fields[OF h, of ONETOMANY "\<lambda>cls mp p fa. Inr (Some (ConvertedField ()))"
      post_view post_model "mapper post_model" "''author''" fk_column pk_column "[]" "''User''"] n
  have many: "\<exists>kw. convert (\<lambda>cls mp p fa. Inr (Some (ConvertedField ()))) post_view post_model (mapper post_model)
            (RelationshipProperty ''author'' ONETOMANY [(fk_column, pk_column)] ''User'')
            ?fa = Inr (Some (QuerySelectMultipleField ''User'' kw)) \<and>
          map_of kw ''allow_blank'' = Some (PyBool True)"
    unfolding v by simp
  from h one many show ?thesis by blast
qed

section \<open>Properties of the handlers and of the database API\<close>

subsection \<open>The try blocks and their handler\<close>

lemma call_flashes: "flashes (snd (call f w)) = flashes w"
  by (simp add: call_def split: prod.splits)

lemma create_model_try_value:
  "create_model_try orm v form w = (Inr x, w') \<Longrightarrow> x = PyBool True"
  by (auto simp: create_model_try_def bind_def return_def split: prod.splits sum.splits)

lemma update_model_try_value:
  "update_model_try orm v form m w = (Inr x, w') \<Longrightarrow> x = PyBool True"
  by (auto simp: update_model_try_def bind_def return_def split: prod.splits sum.splits)

lemma create_model_caught:
  assumes "create_model_try orm v form w = (Inl ex, w')" and "isinstance_Exception ex"
    and "py_str ex = Inr msg" and "request_context w'"
  shows "create_model orm v form w =
           (Inr (PyBool False),
            w'\<lparr>flashes := flashes w' @ [(''error'', ''Failed to create model. '' @ msg)]\<rparr>)"
  using assms
  by (simp add: create_model_def try_except_Exception_def bind_def evaluate_def flash_def return_def)

text \<open>The handler is not protected: what \<open>str(ex)\<close> or \<open>flash\<close> raises comes out.\<close>

lemma create_model_str_raises:
  assumes "create_model_try orm v form w = (Inl ex, w')" and "isinstance_Exception ex"
    and "py_str ex = Inl ex'"
  shows "create_model orm v form w = (Inl ex', w')"
  using assms
  by (simp add: create_model_def try_except_Exception_def bind_def evaluate_def)

lemma create_model_flash_raises:
  assumes "create_model_try orm v form w = (Inl ex, w')" and "isinstance_Exception ex"
    and "py_str ex = Inr msg" and "\<not> request_context w'"
  shows "create_model orm v form w = (Inl RuntimeError, w')"
  using assms
  by (simp add: create_model_def try_except_Exception_def bind_def evaluate_def flash_def)

lemma create_model_not_caught:
  assumes "create_model_try orm v form w = (Inl ex, w')" and "\<not> isinstance_Exception ex"
  shows "create_model orm v form w = (Inl ex, w')"
  using assms by (simp add: create_model_def try_except_Exception_def)

lemma create_model_returned:
  assumes "create_model_try orm v form w = (Inr x, w')"
  shows "create_model orm v form w = (Inr (PyBool True), w')"
  using assms create_model_try_value[OF assms]
  by (simp add: create_model_def try_except_Exception_def)

lemma update_model_caught:
  assumes "update_model_try orm v form m w = (Inl ex, w')" and "isinstance_Exception ex"
    and "py_str ex = Inr msg" and "request_context w'"
  shows "update_model orm v form m w =
           (Inr (PyBool False),
            w'\<lparr>flashes := flashes w' @ [(''error'', ''Failed to update model. '' @ msg)]\<rparr>)"
  using assms
  by (simp add: update_model_def try_except_Exception_def bind_def evaluate_def flash_def return_def)

lemma update_model_str_raises:
  assumes "update_model_try orm v form m w = (Inl ex, w')" and "isinstance_Exception ex"
    and "py_str ex = Inl ex'"
  shows "update_model orm v form m w = (Inl ex', w')"
  using assms
  by (simp add: update_model_def try_except_Exception_def bind_def evaluate_def)

lemma update_model_flash_raises:
  assumes "update_model_try orm v form m w = (Inl ex, w')" and "isinstance_Exception ex"
    and "py_str ex = Inr msg" and "\<not> request_context w'"
  shows "update_model orm v form m w = (Inl RuntimeError, w')"
  using assms
  by (simp add: update_model_def try_except_Exception_def bind_def evaluate_def flash_def)

lemma update_model_not_caught:
  assumes "update_model_try orm v form m w = (Inl ex, w')" and "\<not> isinstance_Exception ex"
  shows "update_model orm v form m w = (Inl ex, w')"
  using assms by (simp add: update_model_def try_except_Exception_def)

lemma update_model_returned:
  assumes "update_model_try orm v form m w = (Inr x, w')"
  shows "update_model orm v form m w = (Inr (PyBool True), w')"
  using assms update_model_try_value[OF assms]
  by (simp add: update_model_def try_except_Exception_def)

text \<open>Where the try blocks raise: at the first call that does.\<close>

lemma update_model_try_populate_raises:
  "populate_obj orm form m (session w) = (Inl ex, s1) \<Longrightarrow>
   update_model_try orm v form m w = (Inl ex, w\<lparr>session := s1\<rparr>)"
  by (simp add: update_model_try_def bind_def call_def)

lemma update_model_try_commit_raises:
  "populate_obj orm form m (session w) = (Inr u, s1) \<Longrightarrow> session_commit orm s1 = (Inl ex, s2) \<Longrightarrow>
   update_model_try orm v form m w = (Inl ex, w\<lparr>session := s2\<rparr>)"
  by (simp add: update_model_try_def bind_def call_def)

lemma create_model_try_new_raises:
  "model_new orm (model v) (session w) = (Inl ex, s1) \<Longrightarrow>
   create_model_try orm v form w = (Inl ex, w\<lparr>session := s1\<rparr>)"
  by (simp add: create_model_try_def bind_def call_def)

lemma create_model_try_populate_raises:
  "model_new orm (model v) (session w) = (Inr m, s1) \<Longrightarrow>
   populate_obj orm form m s1 = (Inl ex, s2) \<Longrightarrow>
   create_model_try orm v form w = (Inl ex, w\<lparr>session := s2\<rparr>)"
  by (simp add: create_model_try_def bind_def call_def)

lemma create_model_try_add_raises:
  "model_new orm (model v) (session w) = (Inr m, s1) \<Longrightarrow>
   populate_obj orm form m s1 = (Inr u, s2) \<Longrightarrow>
   session_add orm m s2 = (Inl ex, s3) \<Longrightarrow>
   create_model_try orm v form w = (Inl ex, w\<lparr>session := s3\<rparr>)"
  by (simp add: create_model_try_def bind_def call_def)

lemma create_model_try_returns:
  "model_new orm (model v) (session w) = (Inr m, s1) \<Longrightarrow>
   populate_obj orm form m s1 = (Inr u, s2) \<Longrightarrow>
   session_add orm m s2 = (Inr u', s3) \<Longrightarrow>
   session_commit orm s3 = (Inr u'', s4) \<Longrightarrow>
   create_model_try orm v form w = (Inr (PyBool True), w\<lparr>session := s4\<rparr>)"
  by (simp add: create_model_try_def bind_def call_def return_def)

lemma update_model_try_returns:
  "populate_obj orm form m (session w) = (Inr u, s1) \<Longrightarrow> session_commit orm s1 = (Inr u', s2) \<Longrightarrow>
   update_model_try orm v form m w = (Inr (PyBool True), w\<lparr>session := s2\<rparr>)"
  by (simp add: update_model_try_def bind_def call_def return_def)

lemma create_model_try_commit_raises:
  "model_new orm (model v) (session w) = (Inr m, s1) \<Longrightarrow>
   populate_obj orm form m s1 = (Inr u, s2) \<Longrightarrow>
   session_add orm m s2 = (Inr u', s3) \<Longrightarrow>
   session_commit orm s3 = (Inl ex, s4) \<Longrightarrow>
   create_model_try orm v form w = (Inl ex, w\<lparr>session := s4\<rparr>)"
  by (simp add: create_model_try_def bind_def call_def)

subsection \<open>Create and update\<close>

lemmas orm_defs = counting_orm_def empty_world_def create_model_def create_model_try_def
  update_model_def update_model_try_def delete_model_def get_one_def get_list_def
  try_except_Exception_def bind_def call_def return_def flash_def evaluate_def

text \<open>
  C4, as stated, has any exception caught. The handler is for \<open>Exception\<close>: a
  \<open>KeyboardInterrupt\<close> raised by \<open>commit\<close> leaves \<open>create_model\<close> as it is, and
  nothing is flashed.
\<close>

theorem create_model_keyboard_interrupt:
  "create_model (counting_orm (Some KeyboardInterrupt)) post_view () empty_world =
     (Inl KeyboardInterrupt, \<lparr>session = 1, flashes = [], request_context = True\<rparr>)"
  by (simp add: orm_defs)

text \<open>
  An instance of \<open>Exception\<close> can leave the two methods all the same, from the
  handler: when \<open>str\<close> of the caught exception raises, and when \<open>flash\<close> is called
  outside a request.
\<close>

lemma create_model_unprintable_exception:
  "create_model (counting_orm (Some (StrRaises UnicodeEncodeError))) post_view () empty_world =
     (Inl UnicodeEncodeError, \<lparr>session = 1, flashes = [], request_context = True\<rparr>)"
  by (simp add: orm_defs)

lemma update_model_outside_request:
  "update_model (counting_orm (Some (Exception ''IntegrityError''))) post_view () ()
     \<lparr>session = 0, flashes = [], request_context = False\<rparr> =
     (Inl RuntimeError, \<lparr>session = 0, flashes = [], request_context = False\<rparr>)"
  by (simp add: orm_defs)

text \<open>
  C4, amended. When the body of \<open>create_model\<close> or \<open>update_model\<close> raises an instance
  of \<open>Exception\<close>, it is caught; when \<open>str\<close> of it returns and a request is active,
  the method returns \<open>False\<close> and has flashed one message of category \<open>error\<close>, made
  of a fixed text and that \<open>str\<close>. When the body raises nothing the method returns
  \<open>True\<close>.
\<close>

theorem create_update_catch_Exception:
  "(create_model_try orm v form w = (Inl ex, w') \<and> isinstance_Exception ex \<and>
    py_str ex = Inr msg \<and> request_context w' \<longrightarrow>
      create_model orm v form w =
        (Inr (PyBool False),
         w'\<lparr>flashes := flashes w' @ [(''error'', ''Failed to create model. '' @ msg)]\<rparr>)) \<and>
   (create_model_try orm v form w = (Inr x, w') \<longrightarrow>
      create_model orm v form w = (Inr (PyBool True), w')) \<and>
   (update_model_try orm v form m w = (Inl ex, w') \<and> isinstance_Exception ex \<and>
    py_str ex = Inr msg \<and> request_context w' \<longrightarrow>
      update_model orm v form m w =
        (Inr (PyBool False),
         w'\<lparr>flashes := flashes w' @ [(''error'', ''Failed to update model. '' @ msg)]\<rparr>)) \<and>
   (update_model_try orm v form m w = (Inr x, w') \<longrightarrow>
      update_model orm v form m w = (Inr (PyBool True), w'))"
proof (intro conjI impI)
  assume "create_model_try orm v form w = (Inl ex, w') \<and> isinstance_Exception ex \<and>
    py_str ex = Inr msg \<and> request_context w'"
  then show "create_model orm v form w =
        (Inr (PyBool False),
         w'\<lparr>flashes := flashes w' @ [(''error'', ''Failed to create model. '' @ msg)]\<rparr>)"
    by (simp add: create_model_caught)
next
  assume "create_model_try orm v form w = (Inr x, w')"
  then show "create_model orm v form w = (Inr (PyBool True), w')"
    by (rule create_model_returned)
next
  assume "update_model_try orm v form m w = (Inl ex, w') \<and> isinstance_Exception ex \<and>
    py_str ex = Inr msg \<and> request_context w'"
  then show "update_model orm v form m w =
        (Inr (PyBool False),
         w'\<lparr>flashes := flashes w' @ [(''error'', ''Failed to update model. '' @ msg)]\<rparr>)"
    by (simp add: update_model_caught)
next
  assume "update_model_try orm v form m w = (Inr x, w')"
  then show "update_model orm v form m w = (Inr (PyBool True), w')"
    by (rule update_model_returned)
qed

theorem create_update_catch_Exception_witness:
  "create_model (counting_orm (Some (Exception ''IntegrityError''))) post_view () empty_world =
     (Inr (PyBool False),
      \<lparr>session = 1, flashes = [(''error'', ''Failed to create model. IntegrityError'')],
       request_context = True\<rparr>) \<and>
   create_model (counting_orm None) post_view () empty_world =
     (Inr (PyBool True), \<lparr>session = 1, flashes = [], request_context = True\<rparr>) \<and>
   update_model (counting_orm (Some (Exception ''IntegrityError''))) post_view () () empty_world =
     (Inr (PyBool False),
      \<lparr>session = 0, flashes = [(''error'', ''Failed to update model. IntegrityError'')],
       request_context = True\<rparr>) \<and>
   update_model (counting_orm None) post_view () () empty_world =
     (Inr (PyBool True), \<lparr>session = 0, flashes = [], request_context = True\<rparr>)"
proof -
  let ?bad = "counting_orm (Some (Exception ''IntegrityError''))"
  let ?good = "counting_orm None"
  let ?w1 = "\<lparr>session = 1, flashes = [], request_context = True\<rparr> :: nat world"
  let ?w0 = "\<lparr>session = 0, flashes = [], request_context = True\<rparr> :: nat world"
  have c1: "create_model_try ?bad post_view () empty_world = (Inl (Exception ''IntegrityError''), ?w1)"
    by (simp add: orm_defs)
  have c2: "create_model_try ?good post_view () empty_world = (Inr (PyBool True), ?w1)"
    by (simp add: orm_defs)
  have u1: "update_model_try ?bad post_view () () empty_world = (Inl (Exception ''IntegrityError''), ?w0)"
    by (simp add: orm_defs)
  have u2: "update_model_try ?good post_view () () empty_world = (Inr (PyBool True), ?w0)"
    by (simp add: orm_defs)
  have e: "isinstance_Exception (Exception ''IntegrityError'')"
    and p: "py_str (Exception ''IntegrityError'') = Inr ''IntegrityError''"
    and q1: "request_context ?w1" and q0: "request_context ?w0"
    by simp_all
  from create_update_catch_Exception[where orm = ?bad and v = post_view and form = "()"
      and w = empty_world and ex = "Exception ''IntegrityError''" and w' = ?w1
      and msg = "''IntegrityError''"] c1 e p q1
  have r1: "create_model ?bad post_view () empty_world =
     (Inr (PyBool False),
      \<lparr>session = 1, flashes = [(''error'', ''Failed to create model. IntegrityError'')],
       request_context = True\<rparr>)"
    by simp
  from create_update_catch_Exception[where orm = ?good and v = post_view and form = "()"
      and w = empty_world and w' = ?w1 and x = "PyBool True"] c2
  have r2: "create_model ?good post_view () empty_world = (Inr (PyBool True), ?w1)"
    by simp
  from create_update_catch_Exception[where orm = ?bad and v = post_view and form = "()" and m = "()"
      and w = empty_world and ex = "Exception ''IntegrityError''" and w' = ?w0
      and msg = "''IntegrityError''"] u1 e p q0
  have r3: "update_model ?bad post_view () () empty_world =
     (Inr (PyBool False),
      \<lparr>session = 0, flashes = [(''error'', ''Failed to update model. IntegrityError'')],
       request_context = True\<rparr>)"
    by simp
  from create_update_catch_Exception[where orm = ?good and v = post_view and form = "()" and m = "()"
      and w = empty_world and w' = ?w0 and x = "PyBool True"] u2
  have r4: "update_model ?good post_view () () empty_world = (Inr (PyBool True), ?w0)"
    by simp
  from r1 r2 r3 r4 show ?thesis by blast
qed

subsection \<open>Delete\<close>

text \<open>
  C5. \<open>delete_model\<close> handles no error: what \<open>session.delete\<close> or \<open>session.commit\<close>
  raises reaches the caller, of whatever class, with the flashed messages as they
  were; and when both return, the method returns \<open>None\<close>, which says nothing of
  success or failure.
\<close>

theorem delete_model_no_error_handling:
  "(session_delete orm m (session w) = (Inl ex, s1) \<longrightarrow>
      delete_model orm v m w = (Inl ex, w\<lparr>session := s1\<rparr>)) \<and>
   (session_delete orm m (session w) = (Inr u, s1) \<and> session_commit orm s1 = (Inl ex, s2) \<longrightarrow>
      delete_model orm v m w = (Inl ex, w\<lparr>session := s2\<rparr>)) \<and>
   (session_delete orm m (session w) = (Inr u, s1) \<and> session_commit orm s1 = (Inr u', s2) \<longrightarrow>
      delete_model orm v m w = (Inr PyNone, w\<lparr>session := s2\<rparr>))"
  by (simp add: delete_model_def bind_def call_def return_def)

theorem delete_model_no_error_handling_witness:
  "delete_model (counting_orm (Some (Exception ''IntegrityError''))) post_view ()
     \<lparr>session = 2, flashes = [], request_context = True\<rparr> =
     (Inl (Exception ''IntegrityError''), \<lparr>session = 1, flashes = [], request_context = True\<rparr>) \<and>
   delete_model (counting_orm None) post_view () \<lparr>session = 2, flashes = [], request_context = True\<rparr> =
     (Inr PyNone, \<lparr>session = 1, flashes = [], request_context = True\<rparr>)"
proof -
  let ?bad = "counting_orm (Some (Exception ''IntegrityError''))"
  let ?good = "counting_orm None"
  let ?w = "\<lparr>session = 2, flashes = [], request_context = True\<rparr> :: nat world"
  have d1: "session_delete ?bad () (session ?w) = (Inr (), 1)"
    and c1: "session_commit ?bad 1 = (Inl (Exception ''IntegrityError''), 1)"
    and d2: "session_delete ?good () (session ?w) = (Inr (), 1)"
    and c2: "session_commit ?good 1 = (Inr (), 1)"
    by (simp_all add: counting_orm_def)
  from delete_model_no_error_handling[of ?bad "()" ?w "Exception ''IntegrityError''" 1 post_view "()" 1 "()"]
    d1 c1
  have r1: "delete_model ?bad post_view () ?w =
     (Inl (Exception ''IntegrityError''), \<lparr>session = 1, flashes = [], request_context = True\<rparr>)"
    by simp
  from delete_model_no_error_handling[of ?good "()" ?w "Exception ''IntegrityError''" 1 post_view "()" 1 "()"]
    d2 c2
  have r2: "delete_model ?good post_view () ?w = (Inr PyNone, \<lparr>session = 1, flashes = [], request_context = True\<rparr>)"
    by simp
  from r1 r2 show ?thesis by blast
qed

subsection \<open>Which methods flash\<close>

text \<open>
  C6, as stated, has each of \<open>get_list\<close>, \<open>get_one\<close>, \<open>create_model\<close>,
  \<open>update_model\<close> and \<open>delete_model\<close> wrapped in a \<open>try\<close> that flashes a message on
  failure. \<open>delete_model\<close> is not: the exception of a failing \<open>commit\<close> comes out of
  it and no message is flashed.
\<close>

theorem delete_model_does_not_flash:
  "delete_model (counting_orm (Some (Exception ''IntegrityError''))) post_view () empty_world =
     (Inl (Exception ''IntegrityError''), \<lparr>session = 0, flashes = [], request_context = True\<rparr>)"
  by (simp add: orm_defs)

lemma bind_flashes:
  assumes "\<And>w. flashes (snd (f w)) = flashes w" and "\<And>x w. flashes (snd (g x w)) = flashes w"
  shows "flashes (snd (bind f g w)) = flashes w"
proof (cases "f w")
  case (Pair r w1)
  with assms(1)[of w] have "flashes w1 = flashes w" by simp
  with Pair assms(2) show ?thesis by (cases r) (simp_all add: bind_def)
qed

lemma return_flashes: "flashes (snd (return x w)) = flashes w"
  by (simp add: return_def)

lemma delete_model_flashes: "flashes (snd (delete_model orm v m w)) = flashes w"
  unfolding delete_model_def
  by (intro bind_flashes call_flashes return_flashes)

lemma get_one_flashes: "flashes (snd (get_one orm v ident w)) = flashes w"
  unfolding get_one_def by (rule call_flashes)

lemma get_list_flashes:
  "flashes (snd (get_list orm v page sort_column sort_desc execute w)) = flashes w"
  unfolding get_list_def Let_def
  by (intro bind_flashes call_flashes) (simp add: bind_flashes call_flashes return_flashes)


lemma get_list_count_raises:
  "query_count orm (SessionQuery (model v)) (session w) = (Inl ex, s1) \<Longrightarrow>
   get_list orm v page sort_column sort_desc execute w = (Inl ex, w\<lparr>session := s1\<rparr>)"
  by (simp add: get_list_def bind_def call_def)

lemma get_one_delegates:
  "query_get orm (SessionQuery (model v)) ident (session w) = (r, s1) \<Longrightarrow>
   get_one orm v ident w = (r, w\<lparr>session := s1\<rparr>)"
  by (simp add: get_one_def call_def)

text \<open>
  C6, amended. \<open>get_list\<close>, \<open>get_one\<close> and \<open>delete_model\<close> flash nothing and let the
  exception of the session through, from whichever of their calls it comes
  (\<open>get_one\<close> is the session's \<open>get\<close> and nothing else); \<open>create_model\<close> and
  \<open>update_model\<close> are the two that catch an instance of \<open>Exception\<close> and, when
  \<open>str\<close> of it returns and a request is active, flash a message and return \<open>False\<close>.
\<close>

theorem only_create_and_update_flash:
  "flashes (snd (get_list orm v page sort_column sort_desc execute w)) = flashes w \<and>
   flashes (snd (get_one orm v ident w)) = flashes w \<and>
   flashes (snd (delete_model orm v m w)) = flashes w \<and>
   (query_count orm (SessionQuery (model v)) (session w) = (Inl ex, s1) \<longrightarrow>
      get_list orm v page sort_column sort_desc execute w = (Inl ex, w\<lparr>session := s1\<rparr>)) \<and>
   (query_count orm (SessionQuery (model v)) (session w) = (Inr n, s1) \<and>
    query_all orm (paginate v (sort_query v (SessionQuery (model v)) sort_column sort_desc) page) s1 =
      (Inl ex, s2) \<longrightarrow>
      get_list orm v page sort_column sort_desc True w = (Inl ex, w\<lparr>session := s2\<rparr>)) \<and>
   (query_get orm (SessionQuery (model v)) ident (session w) = (r, s1) \<longrightarrow>
      get_one orm v ident w = (r, w\<lparr>session := s1\<rparr>)) \<and>
   (session_delete orm m (session w) = (Inl ex, s1) \<longrightarrow>
      delete_model orm v m w = (Inl ex, w\<lparr>session := s1\<rparr>)) \<and>
   (session_delete orm m (session w) = (Inr u, s1) \<and> session_commit orm s1 = (Inl ex, s2) \<longrightarrow>
      delete_model orm v m w = (Inl ex, w\<lparr>session := s2\<rparr>)) \<and>
   (create_model_try orm v form w = (Inl ex, w') \<and> isinstance_Exception ex \<and>
    py_str ex = Inr msg \<and> request_context w' \<longrightarrow>
      fst (create_model orm v form w) = Inr (PyBool False) \<and>
      flashes (snd (create_model orm v form w)) =
        flashes w' @ [(''error'', ''Failed to create model. '' @ msg)]) \<and>
   (update_model_try orm v form m w = (Inl ex, w') \<and> isinstance_Exception ex \<and>
    py_str ex = Inr msg \<and> request_context w' \<longrightarrow>
      fst (update_model orm v form m w) = Inr (PyBool False) \<and>
      flashes (snd (update_model orm v form m w)) =
        flashes w' @ [(''error'', ''Failed to update model. '' @ msg)])"
proof (intro conjI impI)
  show "flashes (snd (get_list orm v page sort_column sort_desc execute w)) = flashes w"
    by (rule get_list_flashes)
  show "flashes (snd (get_one orm v ident w)) = flashes w"
    by (rule get_one_flashes)
  show "flashes (snd (delete_model orm v m w)) = flashes w"
    by (rule delete_model_flashes)
next
  assume "query_count orm (SessionQuery (model v)) (session w) = (Inl ex, s1)"
  then show "get_list orm v page sort_column sort_desc execute w = (Inl ex, w\<lparr>session := s1\<rparr>)"
    by (rule get_list_count_raises)
next
  assume "query_count orm (SessionQuery (model v)) (session w) = (Inr n, s1) \<and>
    query_all orm (paginate v (sort_query v (SessionQuery (model v)) sort_column sort_desc) page) s1 =
      (Inl ex, s2)"
  then show "get_list orm v page sort_column sort_desc True w = (Inl ex, w\<lparr>session := s2\<rparr>)"
    by (simp add: get_list_def bind_def call_def Let_def)
next
  assume "query_get orm (SessionQuery (model v)) ident (session w) = (r, s1)"
  then show "get_one orm v ident w = (r, w\<lparr>session := s1\<rparr>)"
    by (rule get_one_delegates)
next
  assume "session_delete orm m (session w) = (Inl ex, s1)"
  then show "delete_model orm v m w = (Inl ex, w\<lparr>session := s1\<rparr>)"
    by (simp add: delete_model_def bind_def call_def)
next
  assume "session_delete orm m (session w) = (Inr u, s1) \<and> session_commit orm s1 = (Inl ex, s2)"
  then show "delete_model orm v m w = (Inl ex, w\<lparr>session := s2\<rparr>)"
    by (simp add: delete_model_def bind_def call_def)
next
  assume a: "create_model_try orm v form w = (Inl ex, w') \<and> isinstance_Exception ex \<and>
    py_str ex = Inr msg \<and> request_context w'"
  then show "fst (create_model orm v form w) = Inr (PyBool False)"
    by (simp add: create_model_caught)
  from a show "flashes (snd (create_model orm v form w)) =
        flashes w' @ [(''error'', ''Failed to create model. '' @ msg)]"
    by (simp add: create_model_caught)
next
  assume a: "update_model_try orm v form m w = (Inl ex, w') \<and> isinstance_Exception ex \<and>
    py_str ex = Inr msg \<and> request_context w'"
  then show "fst (update_model orm v form m w) = Inr (PyBool False)"
    by (simp add: update_model_caught)
  from a show "flashes (snd (update_model orm v form m w)) =
        flashes w' @ [(''error'', ''Failed to update model. '' @ msg)]"
    by (simp add: update_model_caught)
qed

theorem only_create_and_update_flash_witness:
  "fst (get_one (counting_orm (Some (Exception ''IntegrityError''))) post_view () empty_world) = Inr None \<and>
   flashes (snd (create_model (counting_orm (Some (Exception ''IntegrityError''))) post_view () empty_world)) =
     [(''error'', ''Failed to create model. IntegrityError'')] \<and>
   flashes (snd (update_model (counting_orm (Some (Exception ''IntegrityError''))) post_view () () empty_world)) =
     [(''error'', ''Failed to update model. IntegrityError'')] \<and>
   delete_model (counting_orm (Some (Exception ''IntegrityError''))) post_view () empty_world =
     (Inl (Exception ''IntegrityError''), empty_world)"
proof -
  let ?bad = "counting_orm (Some (Exception ''IntegrityError''))"
  let ?w1 = "\<lparr>session = 1, flashes = [], request_context = True\<rparr> :: nat world"
  let ?w0 = "\<lparr>session = 0, flashes = [], request_context = True\<rparr> :: nat world"
  have c1: "create_model_try ?bad post_view () empty_world = (Inl (Exception ''IntegrityError''), ?w1)"
    by (simp add: orm_defs)
  have u1: "update_model_try ?bad post_view () () empty_world = (Inl (Exception ''IntegrityError''), ?w0)"
    by (simp add: orm_defs)
  have g: "query_get ?bad (SessionQuery (model post_view)) () (session empty_world) = (Inr None, 0)"
    by (simp add: counting_orm_def empty_world_def)
  have d: "session_delete ?bad () (session empty_world) = (Inr (), 0)"
    and c: "session_commit ?bad 0 = (Inl (Exception ''IntegrityError''), 0)"
    by (simp_all add: counting_orm_def empty_world_def)
  have e: "isinstance_Exception (Exception ''IntegrityError'')"
    and p: "py_str (Exception ''IntegrityError'') = Inr ''IntegrityError''"
    and q1: "request_context ?w1" and q0: "request_context ?w0"
    by simp_all
  have w0: "empty_world\<lparr>session := 0\<rparr> = empty_world"
    by (simp add: empty_world_def)
  note t = only_create_and_update_flash[where orm = ?bad and v = post_view and w = empty_world
      and form = "()" and m = "()" and ident = "()" and ex = "Exception ''IntegrityError''"
      and msg = "''IntegrityError''"]
  from t[where w' = ?w1] c1 e p q1
  have r1: "flashes (snd (create_model ?bad post_view () empty_world)) =
     [(''error'', ''Failed to create model. IntegrityError'')]"
    by simp
  from t[where w' = ?w0] u1 e p q0
  have r2: "flashes (snd (update_model ?bad post_view () () empty_world)) =
     [(''error'', ''Failed to update model. IntegrityError'')]"
    by simp
  from t[where u = "()" and ?s1.0 = 0 and ?s2.0 = 0] d c w0
  have r3: "delete_model ?bad post_view () empty_world = (Inl (Exception ''IntegrityError''), empty_world)"
    by simp
  from t[where r = "Inr None" and ?s1.0 = 0] g
  have r4: "fst (get_one ?bad post_view () empty_world) = Inr None"
    by simp
  from r1 r2 r3 r4 show ?thesis by blast
qed

subsection \<open>The count and the limit of a listing\<close>

lemma paginate_limit: "\<exists>q'. paginate v q page = Limit q' (page_size v)"
  by (simp add: paginate_def)

lemma get_list_returned_count:
  assumes "get_list orm v page sort_column sort_desc execute w = (Inr (c, res), w')"
  shows "fst (query_count orm (SessionQuery (model v)) (session w)) = Inr c"
proof -
  obtain r s1 where cnt: "query_count orm (SessionQuery (model v)) (session w) = (r, s1)"
    by (cases "query_count orm (SessionQuery (model v)) (session w)")
  from assms cnt have "r = Inr c"
    by (cases r; cases execute)
       (auto simp: get_list_def bind_def call_def return_def Let_def split: prod.splits sum.splits)
  with cnt show ?thesis by simp
qed

text \<open>
  C10. Two calls of \<open>get_list\<close> on the same session return the same count,
  whatever their page, sort column, sort direction and execution flag: the count is
  that of the bare query of the model, taken on the session as \<open>get_list\<close> found
  it, before any join, ordering, offset or limit. The query it returns, or runs, is
  a limit to \<open>page_size\<close>. When the count returns, \<open>get_list\<close> without
  execution returns, and with execution it returns when \<open>all\<close> does.
\<close>

theorem get_list_count_and_limit:
  "(get_list orm v page sort_column sort_desc execute w = (Inr (c, res), w') \<and>
    get_list orm v page2 sort_column2 sort_desc2 execute2 w = (Inr (c2, res2), w2) \<longrightarrow> c = c2) \<and>
   (get_list orm v page sort_column sort_desc execute w = (Inr (c, res), w') \<longrightarrow>
      fst (query_count orm (SessionQuery (model v)) (session w)) = Inr c \<and>
      (case res of
         QueryObject q \<Rightarrow> \<exists>q'. q = Limit q' (page_size v)
       | ModelList rows \<Rightarrow> \<exists>q' s. fst (query_all orm (Limit q' (page_size v)) s) = Inr rows)) \<and>
   (query_count orm (SessionQuery (model v)) (session w) = (Inr n, s1) \<longrightarrow>
      (\<exists>q'. get_list orm v page sort_column sort_desc False w =
              (Inr (n, QueryObject (Limit q' (page_size v))), w\<lparr>session := s1\<rparr>)) \<and>
      (\<exists>q'. get_list orm v page sort_column sort_desc True w =
              (case query_all orm (Limit q' (page_size v)) s1 of
                 (Inl ex, s2) \<Rightarrow> (Inl ex, w\<lparr>session := s2\<rparr>)
               | (Inr rows, s2) \<Rightarrow> (Inr (n, ModelList rows), w\<lparr>session := s2\<rparr>))))"
proof (intro conjI impI)
  let ?q = "paginate v (sort_query v (SessionQuery (model v)) sort_column sort_desc) page"
  obtain q' where q': "?q = Limit q' (page_size v)"
    using paginate_limit by blast
  {
    assume "get_list orm v page sort_column sort_desc execute w = (Inr (c, res), w') \<and>
      get_list orm v page2 sort_column2 sort_desc2 execute2 w = (Inr (c2, res2), w2)"
    then have "fst (query_count orm (SessionQuery (model v)) (session w)) = Inr c"
      and "fst (query_count orm (SessionQuery (model v)) (session w)) = Inr c2"
      by (auto dest: get_list_returned_count)
    then show "c = c2" by simp
  }
  {
    assume a: "get_list orm v page sort_column sort_desc execute w = (Inr (c, res), w')"
    obtain r s1 where cnt: "query_count orm (SessionQuery (model v)) (session w) = (r, s1)"
      by (cases "query_count orm (SessionQuery (model v)) (session w)")
    from get_list_returned_count[OF a] cnt have r: "r = Inr c" by simp
    with cnt show "fst (query_count orm (SessionQuery (model v)) (session w)) = Inr c" by simp
    show "case res of
         QueryObject q \<Rightarrow> \<exists>q'. q = Limit q' (page_size v)
       | ModelList rows \<Rightarrow> \<exists>q' s. fst (query_all orm (Limit q' (page_size v)) s) = Inr rows"
    proof (cases execute)
      case False
      with a cnt r have "res = QueryObject ?q"
        by (auto simp: get_list_def bind_def call_def return_def Let_def)
      with q' show ?thesis by simp
    next
      case True
      with a cnt r have "\<exists>rows s2. res = ModelList rows \<and> query_all orm ?q s1 = (Inr rows, s2)"
        by (auto simp: get_list_def bind_def call_def return_def Let_def split: prod.splits sum.splits)
      then obtain rows s2 where "res = ModelList rows" "query_all orm (Limit q' (page_size v)) s1 = (Inr rows, s2)"
        using q' by auto
      then have "res = ModelList rows" "fst (query_all orm (Limit q' (page_size v)) s1) = Inr rows"
        by simp_all
      then show ?thesis by auto
    qed
  }
  {
    assume cnt: "query_count orm (SessionQuery (model v)) (session w) = (Inr n, s1)"
    then have "get_list orm v page sort_column sort_desc False w =
              (Inr (n, QueryObject (Limit q' (page_size v))), w\<lparr>session := s1\<rparr>)"
      using q' by (simp add: get_list_def bind_def call_def return_def Let_def)
    then show "\<exists>q'. get_list orm v page sort_column sort_desc False w =
              (Inr (n, QueryObject (Limit q' (page_size v))), w\<lparr>session := s1\<rparr>)" ..
    from cnt have "get_list orm v page sort_column sort_desc True w =
              (case query_all orm (Limit q' (page_size v)) s1 of
                 (Inl ex, s2) \<Rightarrow> (Inl ex, w\<lparr>session := s2\<rparr>)
               | (Inr rows, s2) \<Rightarrow> (Inr (n, ModelList rows), w\<lparr>session := s2\<rparr>))"
      using q'
      by (simp add: get_list_def bind_def call_def return_def Let_def split: prod.splits sum.splits)
    then show "\<exists>q'. get_list orm v page sort_column sort_desc True w =
              (case query_all orm (Limit q' (page_size v)) s1 of
                 (Inl ex, s2) \<Rightarrow> (Inl ex, w\<lparr>session := s2\<rparr>)
               | (Inr rows, s2) \<Rightarrow> (Inr (n, ModelList rows), w\<lparr>session := s2\<rparr>))" ..
  }
qed


theorem get_list_count_and_limit_witness:
  "get_list (counting_orm None) post_view (Some 2) (Some ''user'') True False \<lparr>session = 3, flashes = [], request_context = True\<rparr> =
     (Inr (3, QueryObject
               (Limit (Offset (OrderBy (Join (SessionQuery post_model) (JoinName ''user''))
                                 (Desc (Basestring ''user.name''))) 40) 20)),
      \<lparr>session = 3, flashes = [], request_context = True\<rparr>) \<and>
   fst (query_count (counting_orm None) (SessionQuery (model post_view))
          (session \<lparr>session = 3, flashes = [], request_context = True\<rparr>)) = Inr 3 \<and>
   (\<exists>q'. get_list (counting_orm None) post_view None None False False \<lparr>session = 3, flashes = [], request_context = True\<rparr> =
            (Inr (3, QueryObject (Limit q' (page_size post_view))), \<lparr>session = 3, flashes = [], request_context = True\<rparr>))"
proof -
  let ?orm = "counting_orm None"
  let ?w = "\<lparr>session = 3, flashes = [], request_context = True\<rparr> :: nat world"
  let ?q = "Limit (Offset (OrderBy (Join (SessionQuery post_model) (JoinName ''user''))
                                 (Desc (Basestring ''user.name''))) 40) 20"
  have g: "get_list ?orm post_view (Some 2) (Some ''user'') True False ?w = (Inr (3, QueryObject ?q), ?w)"
    by (simp add: orm_defs paginate_def sort_query_def order_query_def post_view_def)
  have cnt: "query_count ?orm (SessionQuery (model post_view)) (session ?w) = (Inr 3, 3)"
    by (simp add: counting_orm_def)
  from get_list_count_and_limit[where orm = ?orm and v = post_view and page = "Some 2"
      and sort_column = "Some ''user''" and sort_desc = True and execute = False and w = ?w
      and c = 3 and res = "QueryObject ?q" and w' = ?w] g
  have c: "fst (query_count ?orm (SessionQuery (model post_view)) (session ?w)) = Inr 3"
    by simp
  from get_list_count_and_limit[where orm = ?orm and v = post_view and page = None
      and sort_column = None and sort_desc = False and w = ?w and n = 3 and ?s1.0 = 3] cnt
  have e: "\<exists>q'. get_list ?orm post_view None None False False ?w =
            (Inr (3, QueryObject (Limit q' (page_size post_view))), ?w)"
    by simp
  from g c e show ?thesis by blast
qed

subsection \<open>The session after a failure\<close>

text \<open>
  The handler of a failed create or update leaves the session as the failing call
  left it: nothing is rolled back or undone here.
\<close>

lemma failed_create_model_session:
  assumes "create_model_try orm v form w = (Inl ex, w')"
  shows "session (snd (create_model orm v form w)) = session w'"
  using assms
  by (cases "py_str ex")
     (simp_all add: create_model_def try_except_Exception_def bind_def evaluate_def flash_def return_def)

lemma failed_update_model_session:
  assumes "update_model_try orm v form m w = (Inl ex, w')"
  shows "session (snd (update_model orm v form m w)) = session w'"
  using assms
  by (cases "py_str ex")
     (simp_all add: update_model_def try_except_Exception_def bind_def evaluate_def flash_def return_def)

end
